theory Spec2Isabelle
  imports Main "HOL-Library.AList"
begin

section \<open>The variable inspector panel (variableinspector.ts)\<close>

text \<open>
  Objects of the program are compared with \<open>===\<close>, so every inspectable source, handler
  and panel is named by a reference. A nullable reference is an \<open>option\<close>.
\<close>

type_synonym ref = nat

datatype js_error = TypeError | IndexSizeError

text \<open>The outcome a promise of the environment settles to, when it settles at all.\<close>

datatype 'a outcome = Fulfilled 'a | RejectedWith string | NeverSettles

subsection \<open>The interfaces of namespace IVariableInspector\<close>

record IVariableKernelInfo =
  kernelName :: "string option"
  languageName :: "string option"
  context_str :: "string option"

record IVariable =
  varName :: string
  varSize :: string
  varShape :: string
  varContent :: string
  varType :: string
  isMatrix :: bool

record IVariableInspectorUpdate =
  info :: IVariableKernelInfo
  payload :: "IVariable list"

subsection \<open>The table\<close>

text \<open>
  A row holds the markup assigned to the \<open>innerHTML\<close> of each of its cells and its click
  action. The only click action the panel installs is the closure of
  \<open>onInspectorUpdate\<close>, which captures the variable's name: \<open>Some name\<close> is that
  closure, \<open>None\<close> a row without \<open>onclick\<close>.
\<close>

record table_row =
  cells :: "string list"
  onclick :: "string option"

record table_section =
  className :: string
  rows :: "table_row list"

record html_table =
  table_className :: string
  tHead :: "table_section option"
  tFoot :: "table_section option"

definition PANEL_CLASS :: string where
  "PANEL_CLASS = ''jp-VarInspector''"

definition TABLE_CLASS :: string where
  "TABLE_CLASS = ''jp-VarInspector-table''"

definition TABLE_BODY_CLASS :: string where
  "TABLE_BODY_CLASS = ''jp-VarInspector-content''"

text \<open>
  \<open>row.insertCell(i)\<close> followed by \<open>cell.innerHTML = v\<close>. The DOM raises
  IndexSizeError when \<open>i\<close> is greater than the number of cells.
\<close>

definition insertCell :: "nat \<Rightarrow> string \<Rightarrow> table_row \<Rightarrow> js_error + table_row" where
  "insertCell i v r =
     (if i \<le> length (cells r)
      then Inr (r\<lparr>cells := take i (cells r) @ [v] @ drop i (cells r)\<rparr>)
      else Inl IndexSizeError)"

text \<open>Sequencing of steps that may throw.\<close>

definition andThen :: "js_error + 'a \<Rightarrow> ('a \<Rightarrow> js_error + 'b) \<Rightarrow> js_error + 'b" where
  "andThen x f = (case x of Inl e \<Rightarrow> Inl e | Inr a \<Rightarrow> f a)"

text \<open>\<open>Private.createTable\<close>: a table whose head is the row of the five column titles.\<close>

definition createTable :: "js_error + html_table" where
  "createTable =
     andThen (insertCell 0 ''Name'' \<lparr>cells = [], onclick = None\<rparr>) (\<lambda>r1.
     andThen (insertCell 1 ''Type'' r1) (\<lambda>r2.
     andThen (insertCell 2 ''Size'' r2) (\<lambda>r3.
     andThen (insertCell 3 ''Shape'' r3) (\<lambda>r4.
     andThen (insertCell 4 ''Content'' r4) (\<lambda>r5.
     Inr \<lparr>table_className = [],
          tHead = Some \<lparr>className = [], rows = [r5]\<rparr>,
          tFoot = None\<rparr>)))))"

text \<open>
  \<open>s.replace(/\\n/g, "</br>")\<close>: the pattern is a backslash followed by the letter n;
  every occurrence, found from left to right, is replaced.
\<close>

fun replaceEscapedNewlines :: "string \<Rightarrow> string" where
  "replaceEscapedNewlines (a # b # cs) =
     (if a = CHR 0x5C \<and> b = CHR ''n''
      then ''</br>'' @ replaceEscapedNewlines cs
      else a # replaceEscapedNewlines (b # cs))"
| "replaceEscapedNewlines cs = cs"

text \<open>
  The body of the loop of \<open>onInspectorUpdate\<close> after \<open>insertRow\<close>: the click action
  of a matrix row, then the five cells.
\<close>

definition fillRow :: "IVariable \<Rightarrow> js_error + table_row" where
  "fillRow v =
     (let row = \<lparr>cells = [], onclick = None\<rparr>;
          row = (if isMatrix v then row\<lparr>onclick := Some (varName v)\<rparr> else row)
      in andThen (insertCell 0 (varName v) row) (\<lambda>r1.
         andThen (insertCell 1 (varType v) r1) (\<lambda>r2.
         andThen (insertCell 2 (varSize v) r2) (\<lambda>r3.
         andThen (insertCell 3 (varShape v) r3) (\<lambda>r4.
         insertCell 4 (replaceEscapedNewlines (varContent v)) r4)))))"

text \<open>
  The loop \<open>for (index = 0; index < args.length; index++)\<close>: \<open>insertRow()\<close> appends
  the row to the section, which is the accumulator.
\<close>

fun insertRows :: "IVariable list \<Rightarrow> table_section \<Rightarrow> js_error + table_section" where
  "insertRows [] sec = Inr sec"
| "insertRows (v # vs) sec =
     andThen (fillRow v) (\<lambda>r. insertRows vs (sec\<lparr>rows := rows sec @ [r]\<rparr>))"

text \<open>\<open>table.createTFoot()\<close> returns the existing foot or creates an empty one.\<close>

definition createTFoot :: "html_table \<Rightarrow> html_table" where
  "createTFoot t =
     (case tFoot t of
        Some f \<Rightarrow> t
      | None \<Rightarrow> t\<lparr>tFoot := Some \<lparr>className = [], rows = []\<rparr>\<rparr>)"

definition deleteTFoot :: "html_table \<Rightarrow> html_table" where
  "deleteTFoot t = t\<lparr>tFoot := None\<rparr>"

text \<open>The setter \<open>content\<close> of \<open>Private.ToolbarKernelInfo\<close>.\<close>

definition js_string :: "string option \<Rightarrow> string" where
  "js_string s = (case s of None \<Rightarrow> ''undefined'' | Some t \<Rightarrow> t)"

definition truthy :: "string option \<Rightarrow> bool" where
  "truthy s = (case s of None \<Rightarrow> False | Some t \<Rightarrow> t \<noteq> [])"

definition kernelInfoContent :: "IVariableKernelInfo \<Rightarrow> string" where
  "kernelInfoContent i =
     (if truthy (context_str i) then js_string (context_str i)
      else ''Inspecting '' @ js_string (languageName i) @ ''-kernel '' @ [CHR 0x27]
           @ js_string (kernelName i))"

subsection \<open>The panel and the signals of its sources\<close>

text \<open>
  Calls that leave the panel, in the order they are made. A source's signals keep the
  set of sources the panel's two slots are connected to: \<open>connect\<close> of a connected slot
  and \<open>disconnect\<close> of an unconnected one change nothing.
\<close>

datatype signal_name = InspectedSignal | DisposedSignal

datatype panel_call =
    Disconnect signal_name ref
  | Connect signal_name ref
  | PerformInspection ref
  | PerformMatrixInspection ref string

record 'm DataGrid =
  model :: 'm
  title_label :: string
  title_closable :: bool

text \<open>
  The fields of \<open>VariableInspectorPanel\<close> the code reads and writes, with the part of
  its surroundings it acts on: the slots connected to each source, the dock layout of its
  parent (\<open>None\<close> when the panel has no parent) with the widgets added to it by
  \<open>split-right\<close>, and the calls made so far.
\<close>

record 'm VariableInspectorPanel =
  source :: "ref option"
  table :: html_table
  kernelInfoWidget :: string
  isDisposed :: bool
  inspected_slots :: "ref set"
  disposed_slots :: "ref set"
  parent_layout :: "'m DataGrid list option"
  calls :: "panel_call list"

definition newVariableInspectorPanel ::
  "'m DataGrid list option \<Rightarrow> js_error + 'm VariableInspectorPanel" where
  "newVariableInspectorPanel lay =
     andThen createTable (\<lambda>t.
     Inr \<lparr>source = None,
          table = t\<lparr>table_className := TABLE_CLASS\<rparr>,
          kernelInfoWidget = ''Loading...'',
          isDisposed = False,
          inspected_slots = {},
          disposed_slots = {},
          parent_layout = lay,
          calls = []\<rparr>)"

text \<open>The setter of \<open>source\<close>.\<close>

definition unsubscribe :: "'m VariableInspectorPanel \<Rightarrow> 'm VariableInspectorPanel" where
  "unsubscribe p =
     (case source p of
        None \<Rightarrow> p
      | Some old \<Rightarrow>
          p\<lparr>inspected_slots := inspected_slots p - {old},
            disposed_slots := disposed_slots p - {old},
            calls := calls p @ [Disconnect InspectedSignal old, Disconnect DisposedSignal old]\<rparr>)"

definition subscribe :: "'m VariableInspectorPanel \<Rightarrow> 'm VariableInspectorPanel" where
  "subscribe p =
     (case source p of
        None \<Rightarrow> p
      | Some new \<Rightarrow>
          p\<lparr>inspected_slots := insert new (inspected_slots p),
            disposed_slots := insert new (disposed_slots p),
            calls := calls p @ [Connect InspectedSignal new, Connect DisposedSignal new,
                                PerformInspection new]\<rparr>)"

definition set_source ::
  "ref option \<Rightarrow> 'm VariableInspectorPanel \<Rightarrow> 'm VariableInspectorPanel" where
  "set_source s p =
     (if source p = s then p
      else subscribe ((unsubscribe p)\<lparr>source := s\<rparr>))"

text \<open>\<open>dispose\<close>; the inherited \<open>dispose\<close> marks the widget disposed.\<close>

definition dispose :: "'m VariableInspectorPanel \<Rightarrow> 'm VariableInspectorPanel" where
  "dispose p = (if isDisposed p then p else (set_source None p)\<lparr>isDisposed := True\<rparr>)"

definition onInspectorUpdate ::
  "IVariableInspectorUpdate \<Rightarrow> 'm VariableInspectorPanel \<Rightarrow> js_error + 'm VariableInspectorPanel" where
  "onInspectorUpdate allArgs p =
     (let kernelInfo = info allArgs;
          args = payload allArgs;
          p1 = p\<lparr>kernelInfoWidget := kernelInfoContent kernelInfo\<rparr>;
          t = createTFoot (deleteTFoot (table p1))
      in case tFoot t of
           None \<Rightarrow> Inl TypeError
         | Some f \<Rightarrow>
             andThen (insertRows args (f\<lparr>className := TABLE_BODY_CLASS\<rparr>)) (\<lambda>f'.
             Inr (p1\<lparr>table := t\<lparr>tFoot := Some f'\<rparr>\<rparr>)))"

definition onSourceDisposed :: "'m VariableInspectorPanel \<Rightarrow> 'm VariableInspectorPanel" where
  "onSourceDisposed p = set_source None p"

text \<open>
  \<open>_showMatrix\<close>: a data grid with the model, added to the layout of the panel's parent.
\<close>

definition showMatrix ::
  "'m \<Rightarrow> string \<Rightarrow> 'm VariableInspectorPanel \<Rightarrow> js_error + 'm VariableInspectorPanel" where
  "showMatrix dataModel name p =
     (let datagrid = \<lparr>model = dataModel,
                      title_label = ''Matrix: '' @ name,
                      title_closable = True\<rparr>
      in case parent_layout p of
           None \<Rightarrow> Inl TypeError
         | Some lout \<Rightarrow> Inr (p\<lparr>parent_layout := Some (lout @ [datagrid])\<rparr>))"

text \<open>
  A click on a row runs its \<open>onclick\<close>, if it has one: the call goes to the source the
  panel holds at that moment, and the continuation shows the model when the promise is
  fulfilled. What the source's promise settles to is the environment's.
\<close>

definition click ::
  "table_row \<Rightarrow> 'm outcome \<Rightarrow> 'm VariableInspectorPanel \<Rightarrow> js_error + 'm VariableInspectorPanel" where
  "click r res p =
     (case onclick r of
        None \<Rightarrow> Inr p
      | Some name \<Rightarrow>
          (case source p of
             None \<Rightarrow> Inl TypeError
           | Some s \<Rightarrow>
               (let p1 = p\<lparr>calls := calls p @ [PerformMatrixInspection s name]\<rparr>
                in case res of
                     Fulfilled dataModel \<Rightarrow> showMatrix dataModel name p1
                   | RejectedWith msg \<Rightarrow> Inr p1
                   | NeverSettles \<Rightarrow> Inr p1)))"

text \<open>A source emitting a signal reaches the panel through the slots connected to it.\<close>

definition emit_inspected ::
  "ref \<Rightarrow> IVariableInspectorUpdate \<Rightarrow> 'm VariableInspectorPanel \<Rightarrow> js_error + 'm VariableInspectorPanel" where
  "emit_inspected s u p = (if s \<in> inspected_slots p then onInspectorUpdate u p else Inr p)"

definition emit_disposed :: "ref \<Rightarrow> 'm VariableInspectorPanel \<Rightarrow> 'm VariableInspectorPanel" where
  "emit_disposed s p = (if s \<in> disposed_slots p then onSourceDisposed p else p)"

text \<open>What the panel shows and whether its slots follow its source.\<close>

definition bodyRows :: "'m VariableInspectorPanel \<Rightarrow> table_row list" where
  "bodyRows p = (case tFoot (table p) of None \<Rightarrow> [] | Some f \<Rightarrow> rows f)"

definition subscribed :: "'m VariableInspectorPanel \<Rightarrow> bool" where
  "subscribed p =
     (inspected_slots p = set_option (source p) \<and> disposed_slots p = set_option (source p))"

section \<open>The manager (manager.ts)\<close>

text \<open>
  Modelled from the spec: the class \<open>VariableInspectorManager\<close> of manager.ts, which is
  not among the source files. The spec (4.5) gives it a mapping from session identifier to
  handler, kept here in the order of insertion as the object of the program keeps its
  keys, the active handler \<open>source\<close> as a read/write property, and index.ts reads and
  writes its property \<open>panel\<close> in the same way.
\<close>

record VariableInspectorManager =
  m_source :: "ref option"
  m_panel :: "ref option"
  m_handlers :: "(string \<times> ref) list"

definition newVariableInspectorManager :: VariableInspectorManager where
  "newVariableInspectorManager = \<lparr>m_source = None, m_panel = None, m_handlers = []\<rparr>"

text \<open>
  Modelled from the spec: \<open>hasHandler(sessionId) -> bool\<close> of the absent manager.ts.
\<close>

definition hasHandler :: "string \<Rightarrow> VariableInspectorManager \<Rightarrow> bool" where
  "hasHandler sid m = (map_of (m_handlers m) sid \<noteq> None)"

text \<open>
  Modelled from the spec: \<open>getHandler(sessionId) -> Handler\<close> of the absent manager.ts,
  which fails if the identifier is absent; \<open>None\<close> is that failure.
\<close>

definition getHandler :: "string \<Rightarrow> VariableInspectorManager \<Rightarrow> ref option" where
  "getHandler sid m = map_of (m_handlers m) sid"

text \<open>
  Modelled from the spec: \<open>addHandler(handler)\<close> of the absent manager.ts, which
  registers by the handler's session identifier, overwriting any previous entry for that
  identifier. The identifier is passed beside the reference.
\<close>

definition addHandler ::
  "string \<Rightarrow> ref \<Rightarrow> VariableInspectorManager \<Rightarrow> VariableInspectorManager" where
  "addHandler sid h m = m\<lparr>m_handlers := AList.update sid h (m_handlers m)\<rparr>"

text \<open>
  Modelled from the spec: the setters of the read/write properties \<open>source\<close> and
  \<open>panel\<close> of the absent manager.ts store the reference.
\<close>

definition set_m_source ::
  "ref option \<Rightarrow> VariableInspectorManager \<Rightarrow> VariableInspectorManager" where
  "set_m_source s m = m\<lparr>m_source := s\<rparr>"

definition set_m_panel ::
  "ref option \<Rightarrow> VariableInspectorManager \<Rightarrow> VariableInspectorManager" where
  "set_m_panel q m = m\<lparr>m_panel := q\<rparr>"

text \<open>
  Modelled from the spec: the manager's reaction, in the absent manager.ts, to a handler
  reporting its disposal. The reference to the active handler is cleared when it is the
  disposed handler (4.5), and a disposed handler is removed from the manager's map
  (invariant of section 3).
\<close>

definition handlerDisposed ::
  "ref \<Rightarrow> VariableInspectorManager \<Rightarrow> VariableInspectorManager" where
  "handlerDisposed h m =
     m\<lparr>m_source := (if m_source m = Some h then None else m_source m),
       m_handlers := filter (\<lambda>e. snd e \<noteq> h) (m_handlers m)\<rparr>"

section \<open>The plugins (index.ts)\<close>

subsection \<open>The inspector plugin\<close>

text \<open>
  The slot \<open>newPanel\<close> connects to the \<open>disposed\<close> signal of the panel it creates.
\<close>

definition newPanel_onDisposed ::
  "ref \<Rightarrow> VariableInspectorManager \<Rightarrow> VariableInspectorManager" where
  "newPanel_onDisposed panel m =
     (if m_panel m = Some panel then set_m_panel None m else m)"

subsection \<open>Handlers, promises and the state of the wiring\<close>

record LanguageModel =
  initScript :: string
  queryCommand :: string
  matrixQueryCommand :: string

text \<open>A console or notebook panel: its \<open>id\<close> and the \<open>path\<close> of its session.\<close>

record widget =
  wid :: string
  session_path :: string

datatype wkind = Console | Notebook

text \<open>\<open>new KernelConnector({ session })\<close>, named by the path of the session.\<close>

datatype KernelConnector = KernelConnector string

text \<open>
  The two classes of handler.ts the wiring constructs, with the arguments of their
  constructors.
\<close>

datatype handler_obj =
    VariableInspectionHandler
      (opt_queryCommand: string)
      (opt_matrixQueryCommand: string)
      (opt_connector: KernelConnector)
      (opt_initScript: string)
      (opt_id: string)
  | DummyHandler KernelConnector

text \<open>
  A promise of a handler. \<open>Pending n\<close> carries the number of continuations registered by
  focus changes with \<open>then\<close>; a rejection carries the message passed to \<open>reject\<close> or
  the error thrown in the executor.
\<close>

datatype reason = Message string | Thrown js_error

datatype promise = Pending nat | Resolved "ref option" | Rejected reason

datatype wiring_call =
    Call_performInspection ref
  | Call_dispose ref
  | Console_log string

text \<open>
  The state shared by the callbacks of the two plugins: the manager, the two
  dictionaries \<open>handlers\<close> (keyed by the kind of panel and its id), the promises and
  the handlers created so far (a reference is a position), the continuations waiting for
  \<open>connector.ready\<close> and for \<open>handler.ready\<close>, the slots connected to the
  \<open>disposed\<close> signal of the panels, and the calls made to the handlers and to the
  console.
\<close>

record wiring =
  manager :: VariableInspectorManager
  handlers :: "wkind \<times> string \<rightharpoonup> nat"
  promises :: "promise list"
  objects :: "handler_obj list"
  connector_ready_then :: "(nat \<times> wkind \<times> widget) list"
  handler_ready_then :: "(ref \<times> nat) list"
  panel_disposed_slots :: "(wkind \<times> string \<times> ref) list"
  log :: "wiring_call list"

definition newWiring :: wiring where
  "newWiring =
     \<lparr>manager = newVariableInspectorManager,
      handlers = Map.empty,
      promises = [],
      objects = [],
      connector_ready_then = [],
      handler_ready_then = [],
      panel_disposed_slots = [],
      log = []\<rparr>"

definition promise_at :: "wiring \<Rightarrow> nat \<Rightarrow> promise option" where
  "promise_at w pr = (if pr < length (promises w) then Some (promises w ! pr) else None)"

text \<open>
  The continuation both plugins pass to \<open>future.then\<close>. The call goes to the source
  read back from the manager; an error thrown here only rejects the promise \<open>then\<close>
  returned.
\<close>

definition focus_then :: "ref option \<Rightarrow> wiring \<Rightarrow> wiring" where
  "focus_then src w =
     (case src of
        None \<Rightarrow> w
      | Some s \<Rightarrow>
          (let w1 = w\<lparr>manager := set_m_source (Some s) (manager w)\<rparr>
           in case m_source (manager w1) of
                None \<Rightarrow> w1
              | Some a \<Rightarrow> w1\<lparr>log := log w1 @ [Call_performInspection a]\<rparr>))"

text \<open>
  \<open>resolve\<close> and \<open>reject\<close> settle a pending promise and are ignored by a settled
  one; resolving runs the continuations registered so far.
\<close>

definition resolve :: "nat \<Rightarrow> ref option \<Rightarrow> wiring \<Rightarrow> wiring" where
  "resolve pr v w =
     (case promise_at w pr of
        Some (Pending n) \<Rightarrow> (focus_then v ^^ n) (w\<lparr>promises := (promises w)[pr := Resolved v]\<rparr>)
      | _ \<Rightarrow> w)"

definition reject :: "nat \<Rightarrow> reason \<Rightarrow> wiring \<Rightarrow> wiring" where
  "reject pr e w =
     (case promise_at w pr of
        Some (Pending n) \<Rightarrow> w\<lparr>promises := (promises w)[pr := Rejected e]\<rparr>
      | _ \<Rightarrow> w)"

text \<open>\<open>future.then(...)\<close> on the promise found in the dictionary.\<close>

definition then_focus :: "nat \<Rightarrow> wiring \<Rightarrow> wiring" where
  "then_focus pr w =
     (case promise_at w pr of
        Some (Pending n) \<Rightarrow> w\<lparr>promises := (promises w)[pr := Pending (Suc n)]\<rparr>
      | Some (Resolved v) \<Rightarrow> focus_then v w
      | _ \<Rightarrow> w)"

text \<open>
  Modelled from the spec: \<open>dispose()\<close> of a handler, in the absent handler.ts, emits the
  disposed notification, to which the manager reacts.
\<close>

definition dispose_handler :: "ref \<Rightarrow> wiring \<Rightarrow> wiring" where
  "dispose_handler h w =
     w\<lparr>log := log w @ [Call_dispose h], manager := handlerDisposed h (manager w)\<rparr>"

subsection \<open>The consoles plugin\<close>

text \<open>
  The slot of \<open>consoles.widgetAdded\<close>. An executor that throws rejects its promise.
\<close>

definition consoles_widgetAdded :: "widget \<Rightarrow> wiring \<Rightarrow> wiring" where
  "consoles_widgetAdded consolePanel w =
     (let pr = length (promises w);
          w1 = w\<lparr>handlers := (handlers w)((Console, wid consolePanel) \<mapsto> pr)\<rparr>
      in if hasHandler (session_path consolePanel) (manager w)
         then (case getHandler (session_path consolePanel) (manager w) of
                 Some h \<Rightarrow> w1\<lparr>promises := promises w @ [Resolved (Some h)]\<rparr>
               | None \<Rightarrow> w1\<lparr>promises := promises w @ [Rejected (Thrown TypeError)]\<rparr>)
         else w1\<lparr>promises := promises w @ [Pending 0],
                 connector_ready_then :=
                   connector_ready_then w @ [(pr, Console, consolePanel)]\<rparr>)"

text \<open>
  The continuation of \<open>scripts.then\<close>, the same text in both plugins: the handler is
  constructed with the session's path as its id and registered, a slot is connected to the
  panel's \<open>disposed\<close> signal, and the promise waits for \<open>handler.ready\<close>.
\<close>

definition scripts_then :: "wkind \<Rightarrow> widget \<Rightarrow> nat \<Rightarrow> LanguageModel \<Rightarrow> wiring \<Rightarrow> wiring" where
  "scripts_then k panel pr result w =
     (let handler = VariableInspectionHandler (queryCommand result) (matrixQueryCommand result)
                      (KernelConnector (session_path panel)) (initScript result)
                      (session_path panel);
          h = length (objects w);
          w1 = w\<lparr>objects := objects w @ [handler]\<rparr>;
          w2 = w1\<lparr>manager := addHandler (opt_id handler) h (manager w1)\<rparr>;
          w3 = w2\<lparr>panel_disposed_slots := panel_disposed_slots w2 @ [(k, wid panel, h)]\<rparr>
      in w3\<lparr>handler_ready_then := handler_ready_then w3 @ [(h, pr)]\<rparr>)"

text \<open>
  The continuation of \<open>connector.ready.then\<close> in the consoles plugin. What the promise
  returned by \<open>Languages.getScript(kerneltype)\<close> settles to is the environment's
  (inspectorscripts.ts is not among the sources).
\<close>

definition consoles_connectorReady ::
  "widget \<Rightarrow> nat \<Rightarrow> LanguageModel outcome \<Rightarrow> wiring \<Rightarrow> wiring" where
  "consoles_connectorReady consolePanel pr scripts w =
     (case scripts of
        Fulfilled result \<Rightarrow> scripts_then Console consolePanel pr result w
      | RejectedWith result \<Rightarrow>
          (let w1 = w\<lparr>log := log w @ [Console_log result]\<rparr>;
               h = length (objects w1);
               w2 = w1\<lparr>objects :=
                         objects w1 @ [DummyHandler (KernelConnector (session_path consolePanel))]\<rparr>;
               w3 = w2\<lparr>panel_disposed_slots :=
                         panel_disposed_slots w2 @ [(Console, wid consolePanel, h)]\<rparr>
           in resolve pr (Some h) w3)
      | NeverSettles \<Rightarrow> w)"

text \<open>The slot of \<open>app.shell.currentChanged\<close> in the consoles plugin.\<close>

definition consoles_currentChanged :: "bool \<Rightarrow> widget option \<Rightarrow> wiring \<Rightarrow> js_error + wiring" where
  "consoles_currentChanged has newValue w =
     (case newValue of
        None \<Rightarrow> Inr w
      | Some widget \<Rightarrow>
          if \<not> has then Inr w
          else (case handlers w (Console, wid widget) of
                  None \<Rightarrow> Inl TypeError
                | Some future \<Rightarrow> Inr (then_focus future w)))"

subsection \<open>The notebooks plugin\<close>

definition notebooks_widgetAdded :: "widget \<Rightarrow> wiring \<Rightarrow> wiring" where
  "notebooks_widgetAdded nbPanel w =
     (let pr = length (promises w)
      in w\<lparr>handlers := (handlers w)((Notebook, wid nbPanel) \<mapsto> pr),
           promises := promises w @ [Pending 0],
           connector_ready_then := connector_ready_then w @ [(pr, Notebook, nbPanel)]\<rparr>)"

definition notebooks_connectorReady ::
  "widget \<Rightarrow> nat \<Rightarrow> LanguageModel outcome \<Rightarrow> wiring \<Rightarrow> wiring" where
  "notebooks_connectorReady nbPanel pr scripts w =
     (case scripts of
        Fulfilled result \<Rightarrow> scripts_then Notebook nbPanel pr result w
      | RejectedWith result \<Rightarrow> reject pr (Message result) w
      | NeverSettles \<Rightarrow> w)"

definition notebooks_currentChanged :: "bool \<Rightarrow> widget option \<Rightarrow> wiring \<Rightarrow> js_error + wiring" where
  "notebooks_currentChanged has newValue w =
     (case newValue of
        None \<Rightarrow> Inr w
      | Some widget \<Rightarrow>
          if \<not> has then Inr w
          else (case handlers w (Notebook, wid widget) of
                  None \<Rightarrow> Inl TypeError
                | Some future \<Rightarrow> Inr (then_focus future w)))"

subsection \<open>Events\<close>

text \<open>
  The slots the two plugins connect to the \<open>disposed\<close> signal of a panel, each deleting
  the panel's entry of its dictionary and disposing of its handler; they run in the order
  of connection.
\<close>

fun run_disposed_slots :: "wkind \<Rightarrow> string \<Rightarrow> (wkind \<times> string \<times> ref) list \<Rightarrow> wiring \<Rightarrow> wiring" where
  "run_disposed_slots k i [] w = w"
| "run_disposed_slots k i ((k', i', h) # slots) w =
     (if k' = k \<and> i' = i
      then run_disposed_slots k i slots
             (dispose_handler h (w\<lparr>handlers := (handlers w)((k, i) := None)\<rparr>))
      else run_disposed_slots k i slots w)"

definition panelDisposed :: "wkind \<Rightarrow> string \<Rightarrow> wiring \<Rightarrow> wiring" where
  "panelDisposed k i w =
     run_disposed_slots k i (panel_disposed_slots w)
       (w\<lparr>panel_disposed_slots :=
            filter (\<lambda>(k', i', h). \<not> (k' = k \<and> i' = i)) (panel_disposed_slots w)\<rparr>)"

text \<open>\<open>connector.ready\<close> of the connector created for promise \<open>pr\<close> resolves.\<close>

definition connectorReady :: "nat \<Rightarrow> LanguageModel outcome \<Rightarrow> wiring \<Rightarrow> wiring" where
  "connectorReady pr scripts w =
     (case map_of (connector_ready_then w) pr of
        None \<Rightarrow> w
      | Some (k, panel) \<Rightarrow>
          (let w1 = w\<lparr>connector_ready_then := AList.delete pr (connector_ready_then w)\<rparr>
           in case k of
                Console \<Rightarrow> consoles_connectorReady panel pr scripts w1
              | Notebook \<Rightarrow> notebooks_connectorReady panel pr scripts w1))"

text \<open>\<open>handler.ready\<close> of handler \<open>h\<close> resolves: \<open>resolve(handler)\<close>.\<close>

definition handlerReady :: "ref \<Rightarrow> wiring \<Rightarrow> wiring" where
  "handlerReady h w =
     (case map_of (handler_ready_then w) h of
        None \<Rightarrow> w
      | Some pr \<Rightarrow> resolve pr (Some h) (w\<lparr>handler_ready_then := AList.delete h (handler_ready_then w)\<rparr>))"

text \<open>
  What the environment can make happen. A focus change carries the new widget and the
  answers of \<open>consoles.has\<close> and \<open>notebooks.has\<close> for it; a slot that throws leaves
  the state as it was and the next slot runs.
\<close>

datatype event =
    ConsoleAdded widget
  | NotebookAdded widget
  | ConnectorReady nat "LanguageModel outcome"
  | HandlerReady ref
  | CurrentChanged "widget option" bool bool
  | PanelDisposed wkind string

definition orElse :: "js_error + 'a \<Rightarrow> 'a \<Rightarrow> 'a" where
  "orElse x d = (case x of Inl e \<Rightarrow> d | Inr a \<Rightarrow> a)"

fun step :: "event \<Rightarrow> wiring \<Rightarrow> wiring" where
  "step (ConsoleAdded c) w = consoles_widgetAdded c w"
| "step (NotebookAdded n) w = notebooks_widgetAdded n w"
| "step (ConnectorReady pr scripts) w = connectorReady pr scripts w"
| "step (HandlerReady h) w = handlerReady h w"
| "step (CurrentChanged newValue inConsoles inNotebooks) w =
     (let w1 = orElse (consoles_currentChanged inConsoles newValue w) w
      in orElse (notebooks_currentChanged inNotebooks newValue w1) w1)"
| "step (PanelDisposed k i) w = panelDisposed k i w"

fun run :: "event list \<Rightarrow> wiring \<Rightarrow> wiring" where
  "run [] w = w"
| "run (e # es) w = run es (step e w)"

text \<open>The identifiers registered in the manager are pairwise different.\<close>

definition keys_distinct :: "wiring \<Rightarrow> bool" where
  "keys_distinct w = distinct (map fst (m_handlers (manager w)))"

section \<open>The inspection handler (handler.ts)\<close>

text \<open>
  Modelled from the spec: the class \<open>VariableInspectionHandler\<close> of handler.ts, which is
  not among the source files. Of the handler of 4.3 the state of its state machine and the
  cached serialized form of the payload it emitted last are kept; \<open>None\<close> is the cache of
  a handler that has emitted nothing.
\<close>

datatype handler_state =
  Uninitialized | AwaitingConnectorReady | RunningInitScript | Ready | Disposed

record Handler =
  h_state :: handler_state
  h_cache :: "string option"

text \<open>What \<open>connector.execute(queryCommand)\<close> gives back.\<close>

datatype reply = ReplyText string | ExecutionFailure

text \<open>
  Modelled from the spec: \<open>performInspection()\<close> of the absent handler.ts (4.3). The
  reply's textual payload is the serialized form; it is parsed into the sequence of
  descriptors and compared with the cached form: if identical nothing is done, if
  different the cache is updated and one update is emitted, with the kernel info of the
  connector. A failed query or parse emits nothing, and a disposed handler does nothing.
  The parser and the kernel info are parameters. The result is the handler and the
  updates emitted; \<open>None\<close> stands for the states before \<open>Ready\<close>, for which the spec
  fixes no behaviour.
\<close>

definition performInspection ::
  "(string \<Rightarrow> IVariable list option) \<Rightarrow> IVariableKernelInfo \<Rightarrow> reply \<Rightarrow> Handler
     \<Rightarrow> (Handler \<times> IVariableInspectorUpdate list) option" where
  "performInspection parse kinfo rep h =
     (case h_state h of
        Ready \<Rightarrow>
          (case rep of
             ExecutionFailure \<Rightarrow> Some (h, [])
           | ReplyText s \<Rightarrow>
               (case parse s of
                  None \<Rightarrow> Some (h, [])
                | Some vars \<Rightarrow>
                    if h_cache h = Some s then Some (h, [])
                    else Some (h\<lparr>h_cache := Some s\<rparr>, [\<lparr>info = kinfo, payload = vars\<rparr>])))
      | Disposed \<Rightarrow> Some (h, [])
      | Uninitialized \<Rightarrow> None
      | AwaitingConnectorReady \<Rightarrow> None
      | RunningInitScript \<Rightarrow> None)"

text \<open>
  Modelled from the spec: consecutive calls of \<open>performInspection()\<close>, one for each reply
  of the remote session, with the updates they emit in order.
\<close>

fun performInspections ::
  "(string \<Rightarrow> IVariable list option) \<Rightarrow> IVariableKernelInfo \<Rightarrow> reply list \<Rightarrow> Handler
     \<Rightarrow> (Handler \<times> IVariableInspectorUpdate list) option" where
  "performInspections parse kinfo [] h = Some (h, [])"
| "performInspections parse kinfo (r # rs) h =
     (case performInspection parse kinfo r h of
        None \<Rightarrow> None
      | Some (h1, us) \<Rightarrow>
          (case performInspections parse kinfo rs h1 of
             None \<Rightarrow> None
           | Some (h2, us') \<Rightarrow> Some (h2, us @ us')))"

section \<open>Properties of the panel\<close>

lemma fillRow_value:
  "fillRow v = Inr \<lparr>cells = [varName v, varType v, varSize v, varShape v,
                             replaceEscapedNewlines (varContent v)],
                    onclick = (if isMatrix v then Some (varName v) else None)\<rparr>"
  by (simp add: fillRow_def insertCell_def andThen_def)

lemma insertRows_value:
  "insertRows vs sec = Inr (sec\<lparr>rows := rows sec @ map (projr \<circ> fillRow) vs\<rparr>)"
  by (induction vs arbitrary: sec) (simp_all add: andThen_def fillRow_value)

lemma onInspectorUpdate_value:
  "onInspectorUpdate u p =
     Inr (p\<lparr>kernelInfoWidget := kernelInfoContent (info u),
            table := (table p)\<lparr>tFoot := Some \<lparr>className = TABLE_BODY_CLASS,
                                               rows = map (projr \<circ> fillRow) (payload u)\<rparr>\<rparr>\<rparr>)"
  by (simp add: onInspectorUpdate_def createTFoot_def deleteTFoot_def insertRows_value
      andThen_def)

lemma createTable_value:
  "createTable =
     Inr \<lparr>table_className = [],
          tHead = Some \<lparr>className = [],
                        rows = [\<lparr>cells = [''Name'', ''Type'', ''Size'', ''Shape'', ''Content''],
                                 onclick = None\<rparr>]\<rparr>,
          tFoot = None\<rparr>"
  by (simp add: createTable_def insertCell_def andThen_def)

lemma newVariableInspectorPanel_value:
  "newVariableInspectorPanel lay =
     Inr \<lparr>source = None,
          table = \<lparr>table_className = TABLE_CLASS,
                   tHead = Some \<lparr>className = [],
                        rows = [\<lparr>cells = [''Name'', ''Type'', ''Size'', ''Shape'', ''Content''],
                                 onclick = None\<rparr>]\<rparr>,
                   tFoot = None\<rparr>,
          kernelInfoWidget = ''Loading...'',
          isDisposed = False,
          inspected_slots = {},
          disposed_slots = {},
          parent_layout = lay,
          calls = []\<rparr>"
  by (simp add: newVariableInspectorPanel_def createTable_value andThen_def)

lemma bodyRows_onInspectorUpdate:
  "onInspectorUpdate u p = Inr p' \<Longrightarrow> bodyRows p' = map (projr \<circ> fillRow) (payload u)"
  by (auto simp add: onInspectorUpdate_value bodyRows_def)

subsection \<open>The slots follow the source\<close>

lemma subscribed_new: "newVariableInspectorPanel lay = Inr p \<Longrightarrow> subscribed p"
  by (auto simp add: newVariableInspectorPanel_value subscribed_def)

lemma subscribed_set_source: "subscribed p \<Longrightarrow> subscribed (set_source s p)"
  by (auto simp add: subscribed_def set_source_def subscribe_def unsubscribe_def
      split: option.splits)

lemma subscribed_dispose: "subscribed p \<Longrightarrow> subscribed (dispose p)"
  using subscribed_set_source [of p None]
  by (simp add: dispose_def subscribed_def)

lemma subscribed_emit_disposed: "subscribed p \<Longrightarrow> subscribed (emit_disposed s p)"
  by (simp add: emit_disposed_def onSourceDisposed_def subscribed_set_source)

lemma subscribed_emit_inspected:
  "subscribed p \<Longrightarrow> emit_inspected s u p = Inr p' \<Longrightarrow> subscribed p'"
  by (auto simp add: emit_inspected_def onInspectorUpdate_value subscribed_def
      split: if_splits)

lemma subscribed_click: "subscribed p \<Longrightarrow> click r res p = Inr p' \<Longrightarrow> subscribed p'"
  by (auto simp add: click_def showMatrix_def subscribed_def Let_def
      split: option.splits outcome.splits)

subsection \<open>Rendering an update\<close>

text \<open>
  Claim C4, as amended: for every update the panel receives, with payload \<open>P\<close>, the
  handler returns, and the table body then holds exactly one row per element of \<open>P\<close>, in
  the order of \<open>P\<close>; the five cells of row \<open>i\<close> are the name, type, size and shape of
  \<open>P[i]\<close> and its content in which every backslash followed by n is replaced by
  \<open></br>\<close>.
\<close>

theorem onInspectorUpdate_rows:
  "\<exists>p'. onInspectorUpdate u p = Inr p' \<and>
     map cells (bodyRows p') =
       map (\<lambda>v. [varName v, varType v, varSize v, varShape v,
                 replaceEscapedNewlines (varContent v)]) (payload u)"
  by (simp add: onInspectorUpdate_value bodyRows_def fillRow_value)

text \<open>
  The fifth cell is not the content field itself: a variable whose content is a backslash
  followed by n is shown as \<open></br>\<close>.
\<close>

theorem onInspectorUpdate_content_counterexample:
  "map_sum id (map cells \<circ> bodyRows)
     (onInspectorUpdate
        \<lparr>info = \<lparr>kernelName = None, languageName = None, context_str = None\<rparr>,
         payload = [\<lparr>varName = ''s'', varSize = ''2'', varShape = [],
                     varContent = [CHR 0x5C, CHR ''n''], varType = ''str'',
                     isMatrix = False\<rparr>]\<rparr>
        (projr (newVariableInspectorPanel None) :: unit VariableInspectorPanel))
   = Inr [[''s'', ''str'', ''2'', [], ''</br>'']]
   \<and> [[''s'', ''str'', ''2'', [], ''</br>'']]
      \<noteq> [[''s'', ''str'', ''2'', [], [CHR 0x5C, CHR ''n'']]]"
  by (simp add: onInspectorUpdate_value bodyRows_def fillRow_value)

text \<open>
  Claim C5: every row rendered for a descriptor with \<open>isMatrix\<close> has a click action
  that calls \<open>performMatrixInspection\<close> with the variable's name on the source the panel
  holds when the row is clicked and, once the promise is fulfilled, adds a data grid with
  the model to the layout of the panel's parent; a row rendered for any other descriptor
  has no click action, and a click on it changes nothing.
\<close>

theorem matrix_row_click:
  assumes "source q = Some s" and "parent_layout q = Some lout"
  shows "\<exists>p'. onInspectorUpdate u p = Inr p' \<and>
     length (bodyRows p') = length (payload u) \<and>
     (\<forall>i < length (payload u).
        onclick (bodyRows p' ! i) =
          (if isMatrix (payload u ! i) then Some (varName (payload u ! i)) else None) \<and>
        click (bodyRows p' ! i) (Fulfilled m) q =
          (if isMatrix (payload u ! i)
           then Inr (q\<lparr>calls := calls q @ [PerformMatrixInspection s (varName (payload u ! i))],
                       parent_layout :=
                         Some (lout @ [\<lparr>model = m,
                                        title_label = ''Matrix: '' @ varName (payload u ! i),
                                        title_closable = True\<rparr>])\<rparr>)
           else Inr q))"
  using assms
  by (simp add: onInspectorUpdate_value bodyRows_def fillRow_value click_def showMatrix_def)

theorem matrix_row_click_witness:
  "click (bodyRows (projr (onInspectorUpdate
        \<lparr>info = \<lparr>kernelName = None, languageName = None, context_str = None\<rparr>,
         payload = [\<lparr>varName = ''a'', varSize = ''80'', varShape = ''2 x 5'',
                     varContent = ''[[0 1 2 3 4]]'', varType = ''ndarray'',
                     isMatrix = True\<rparr>]\<rparr>
        (projr (newVariableInspectorPanel None) :: nat VariableInspectorPanel))) ! 0)
      (Fulfilled (5::nat))
      (set_source (Some 7) (projr (newVariableInspectorPanel (Some []))))
   = Inr ((set_source (Some 7) (projr (newVariableInspectorPanel (Some []))))
           \<lparr>calls := [Connect InspectedSignal 7, Connect DisposedSignal 7, PerformInspection 7,
                      PerformMatrixInspection 7 ''a''],
            parent_layout := Some [\<lparr>model = 5, title_label = ''Matrix: a'',
                                    title_closable = True\<rparr>]\<rparr>)"
proof -
  let ?u = "\<lparr>info = \<lparr>kernelName = None, languageName = None, context_str = None\<rparr>,
         payload = [\<lparr>varName = ''a'', varSize = ''80'', varShape = ''2 x 5'',
                     varContent = ''[[0 1 2 3 4]]'', varType = ''ndarray'',
                     isMatrix = True\<rparr>]\<rparr>"
  let ?p = "projr (newVariableInspectorPanel None) :: nat VariableInspectorPanel"
  let ?q = "set_source (Some 7) (projr (newVariableInspectorPanel (Some []))) :: nat VariableInspectorPanel"
  have s: "source ?q = Some 7"
    by (simp add: set_source_def subscribe_def unsubscribe_def newVariableInspectorPanel_value)
  have l: "parent_layout ?q = Some []"
    by (simp add: set_source_def subscribe_def unsubscribe_def newVariableInspectorPanel_value)
  have c: "calls ?q = [Connect InspectedSignal 7, Connect DisposedSignal 7, PerformInspection 7]"
    by (simp add: set_source_def subscribe_def unsubscribe_def newVariableInspectorPanel_value)
  from matrix_row_click [OF s l, of ?u ?p 5]
  obtain p' where p': "onInspectorUpdate ?u ?p = Inr p'"
    and r: "\<forall>i < length (payload ?u).
        click (bodyRows p' ! i) (Fulfilled 5) ?q =
          (if isMatrix (payload ?u ! i)
           then Inr (?q\<lparr>calls := calls ?q @ [PerformMatrixInspection 7 (varName (payload ?u ! i))],
                       parent_layout :=
                         Some ([] @ [\<lparr>model = 5,
                                        title_label = ''Matrix: '' @ varName (payload ?u ! i),
                                        title_closable = True\<rparr>])\<rparr>)
           else Inr ?q)"
    by blast
  from r have "click (bodyRows p' ! 0) (Fulfilled 5) ?q =
     Inr (?q\<lparr>calls := calls ?q @ [PerformMatrixInspection 7 ''a''],
             parent_layout := Some [\<lparr>model = 5, title_label = ''Matrix: a'',
                                    title_closable = True\<rparr>]\<rparr>)"
    by simp
  with p' c show ?thesis by simp
qed

subsection \<open>The source of the panel\<close>

text \<open>
  Claim C6: when the source the panel is bound to emits \<open>disposed\<close>, the panel's source
  becomes null and its slots are disconnected from that source's \<open>inspected\<close> and
  \<open>disposed\<close> signals, so that an update the source emits afterwards leaves the panel as
  it is.
\<close>

theorem source_disposed_clears:
  assumes "subscribed p" and "source p = Some s"
  shows "source (emit_disposed s p) = None
       \<and> s \<notin> inspected_slots (emit_disposed s p)
       \<and> s \<notin> disposed_slots (emit_disposed s p)
       \<and> calls (emit_disposed s p) = calls p @ [Disconnect InspectedSignal s, Disconnect DisposedSignal s]
       \<and> emit_inspected s u (emit_disposed s p) = Inr (emit_disposed s p)"
  using assms
  by (simp add: subscribed_def emit_disposed_def onSourceDisposed_def set_source_def
      subscribe_def unsubscribe_def emit_inspected_def)

theorem source_disposed_clears_witness:
  "subscribed (set_source (Some 3) (projr (newVariableInspectorPanel None)) :: unit VariableInspectorPanel)
   \<and> source (emit_disposed 3 (set_source (Some 3) (projr (newVariableInspectorPanel None))
        :: unit VariableInspectorPanel)) = None
   \<and> calls (emit_disposed 3 (set_source (Some 3) (projr (newVariableInspectorPanel None))
        :: unit VariableInspectorPanel))
      = [Connect InspectedSignal 3, Connect DisposedSignal 3, PerformInspection 3,
         Disconnect InspectedSignal 3, Disconnect DisposedSignal 3]"
proof -
  let ?p = "set_source (Some 3) (projr (newVariableInspectorPanel None)) :: unit VariableInspectorPanel"
  have a: "subscribed ?p"
    by (simp add: subscribed_def set_source_def subscribe_def unsubscribe_def
        newVariableInspectorPanel_value)
  have b: "source ?p = Some 3"
    by (simp add: set_source_def subscribe_def unsubscribe_def newVariableInspectorPanel_value)
  have c: "calls ?p = [Connect InspectedSignal 3, Connect DisposedSignal 3, PerformInspection 3]"
    by (simp add: set_source_def subscribe_def unsubscribe_def newVariableInspectorPanel_value)
  from source_disposed_clears [OF a b] a c show ?thesis by simp
qed

text \<open>
  Claim C9: assigning to \<open>source\<close> the value it holds changes nothing (no call is
  made, no slot changes); assigning a different source that is not null disconnects the
  slots from the old source, if there is one, then connects them to the new source and
  calls its \<open>performInspection\<close>, in this order.
\<close>

theorem set_source_effects:
  "set_source (source p) p = p \<and>
   (source p \<noteq> Some new \<longrightarrow>
      source (set_source (Some new) p) = Some new
    \<and> calls (set_source (Some new) p) =
        calls p
        @ (case source p of
             None \<Rightarrow> []
           | Some old \<Rightarrow> [Disconnect InspectedSignal old, Disconnect DisposedSignal old])
        @ [Connect InspectedSignal new, Connect DisposedSignal new, PerformInspection new]
    \<and> inspected_slots (set_source (Some new) p) =
        insert new (inspected_slots p - set_option (source p))
    \<and> disposed_slots (set_source (Some new) p) =
        insert new (disposed_slots p - set_option (source p)))"
  by (auto simp add: set_source_def subscribe_def unsubscribe_def split: option.splits)

theorem set_source_effects_witness:
  "calls (set_source (Some 2) (set_source (Some 1) (projr (newVariableInspectorPanel None))
       :: unit VariableInspectorPanel))
   = [Connect InspectedSignal 1, Connect DisposedSignal 1, PerformInspection 1,
      Disconnect InspectedSignal 1, Disconnect DisposedSignal 1,
      Connect InspectedSignal 2, Connect DisposedSignal 2, PerformInspection 2]"
proof -
  let ?p = "set_source (Some 1) (projr (newVariableInspectorPanel None)) :: unit VariableInspectorPanel"
  have b: "source ?p = Some 1"
    by (simp add: set_source_def subscribe_def unsubscribe_def newVariableInspectorPanel_value)
  have c: "calls ?p = [Connect InspectedSignal 1, Connect DisposedSignal 1, PerformInspection 1]"
    by (simp add: set_source_def subscribe_def unsubscribe_def newVariableInspectorPanel_value)
  from b have d: "source ?p \<noteq> Some 2" by simp
  from set_source_effects [of ?p 2] d b c show ?thesis by simp
qed

section \<open>Properties of the manager and of the handler\<close>

text \<open>
  Claim C10: when a panel created by \<open>newPanel\<close> is disposed, the manager's reference to
  its panel becomes null if it is a reference to that panel, and is left as it is if it
  refers to another panel or is null already; nothing else of the manager changes.
\<close>

theorem newPanel_onDisposed_panel:
  "m_panel (newPanel_onDisposed p m) = (if m_panel m = Some p then None else m_panel m)
   \<and> m_source (newPanel_onDisposed p m) = m_source m
   \<and> m_handlers (newPanel_onDisposed p m) = m_handlers m"
  by (simp add: newPanel_onDisposed_def set_m_panel_def)

text \<open>
  Claim C8: when a handler reports its disposal, the manager's reference to the active
  handler is cleared if it pointed at that handler, and keeps its value if it pointed at
  another handler or was null; the same holds when the wiring disposes of a handler.
\<close>

theorem handlerDisposed_source:
  "m_source (handlerDisposed h m) = (if m_source m = Some h then None else m_source m)
   \<and> m_source (manager (dispose_handler h w)) =
       (if m_source (manager w) = Some h then None else m_source (manager w))"
  by (simp add: handlerDisposed_def dispose_handler_def)

lemma performInspection_Ready:
  "h_state h = Ready \<Longrightarrow>
   performInspection parse k (ReplyText s) h =
     (if parse s \<noteq> None \<and> h_cache h \<noteq> Some s
      then Some (h\<lparr>h_cache := Some s\<rparr>, [\<lparr>info = k, payload = the (parse s)\<rparr>])
      else Some (h, []))"
  by (auto simp add: performInspection_def split: option.splits)

text \<open>
  The scenario of the spec: a first listing is emitted, the same listing again is not, a
  longer listing is.
\<close>

lemma performInspections_scenario:
  "map_option (map (length \<circ> payload) \<circ> snd)
     (performInspections (map_of [(''[x]'', [v1]), (''[x,y]'', [v1, v2])]) k
        [ReplyText ''[x]'', ReplyText ''[x]'', ReplyText ''[x,y]'']
        \<lparr>h_state = Ready, h_cache = None\<rparr>) = Some [1, 2]"
  by (simp add: performInspection_def)

text \<open>
  Claim C7, as amended: for every handler that is Ready, \<open>performInspection\<close> returns
  and emits one update, carrying the parsed payload, if and only if the reply parses and
  its serialized form differs from the cached one; two consecutive calls with the same
  reply emit one update in total when the form differs from the one cached before the
  first call, and none otherwise.
\<close>

theorem performInspection_emits:
  assumes "h_state h = Ready"
  shows "(\<exists>h' us. performInspection parse k (ReplyText s) h = Some (h', us)
            \<and> h_state h' = Ready
            \<and> us = (if parse s \<noteq> None \<and> h_cache h \<noteq> Some s
                    then [\<lparr>info = k, payload = the (parse s)\<rparr>] else []))
       \<and> (\<exists>h2 us2. performInspections parse k [ReplyText s, ReplyText s] h = Some (h2, us2)
            \<and> length us2 = (if parse s \<noteq> None \<and> h_cache h \<noteq> Some s then 1 else 0))"
  using assms by (simp add: performInspection_Ready)

theorem performInspection_emits_witness:
  "map_option (length \<circ> snd)
     (performInspections (map_of [(''[1]'', [\<lparr>varName = ''x'', varSize = ''28'', varShape = [],
                                               varContent = ''1'', varType = ''int'',
                                               isMatrix = False\<rparr>])])
        \<lparr>kernelName = Some ''python3'', languageName = Some ''python'', context_str = None\<rparr>
        [ReplyText ''[1]'', ReplyText ''[1]'']
        \<lparr>h_state = Ready, h_cache = None\<rparr>) = Some 1"
proof -
  have r: "h_state \<lparr>h_state = Ready, h_cache = None\<rparr> = Ready" by simp
  from performInspection_emits [OF r,
      of "map_of [(''[1]'', [\<lparr>varName = ''x'', varSize = ''28'', varShape = [],
                                               varContent = ''1'', varType = ''int'',
                                               isMatrix = False\<rparr>])]"
         "\<lparr>kernelName = Some ''python3'', languageName = Some ''python'', context_str = None\<rparr>"
         "''[1]''"]
  show ?thesis by auto
qed

text \<open>
  Two consecutive calls on a Ready handler whose cache already holds the serialized form
  of the remote listing emit no update, not one.
\<close>

theorem performInspection_twice_counterexample:
  "map_option (length \<circ> snd)
     (performInspections (map_of [(''[]'', [])])
        \<lparr>kernelName = Some ''python3'', languageName = Some ''python'', context_str = None\<rparr>
        [ReplyText ''[]'', ReplyText ''[]'']
        \<lparr>h_state = Ready, h_cache = Some ''[]''\<rparr>) = Some 0"
  by (simp add: performInspection_def)

section \<open>Properties of the wiring\<close>

subsection \<open>Promises and continuations\<close>

lemma focus_then_frame:
  "promises (focus_then v w) = promises w"
  "objects (focus_then v w) = objects w"
  "handlers (focus_then v w) = handlers w"
  "m_handlers (manager (focus_then v w)) = m_handlers (manager w)"
  by (simp_all add: focus_then_def set_m_source_def Let_def split: option.splits)

lemma focus_then_Some:
  "focus_then (Some h) w =
     w\<lparr>manager := set_m_source (Some h) (manager w),
       log := log w @ [Call_performInspection h]\<rparr>"
  by (simp add: focus_then_def set_m_source_def)

lemma focus_thens_frame:
  "promises ((focus_then v ^^ n) w) = promises w"
  "objects ((focus_then v ^^ n) w) = objects w"
  "handlers ((focus_then v ^^ n) w) = handlers w"
  "m_handlers (manager ((focus_then v ^^ n) w)) = m_handlers (manager w)"
  by (induction n) (simp_all add: focus_then_frame)

lemma focus_thens_log:
  "log ((focus_then (Some h) ^^ n) w) = log w @ replicate n (Call_performInspection h)"
  by (induction n) (simp_all add: focus_then_Some replicate_append_same)

lemma focus_thens_source:
  "m_source (manager ((focus_then (Some h) ^^ Suc n) w)) = Some h"
  by (simp add: focus_then_Some set_m_source_def)

lemma promise_at_Some:
  "promise_at w pr = Some q \<longleftrightarrow> pr < length (promises w) \<and> promises w ! pr = q"
  by (auto simp add: promise_at_def)

lemma resolve_pending:
  assumes "promise_at w pr = Some (Pending n)"
  shows "promise_at (resolve pr v w) pr = Some (Resolved v)"
    and "objects (resolve pr v w) = objects w"
    and "log (resolve pr (Some h) w) = log w @ replicate n (Call_performInspection h)"
proof -
  have r: "resolve pr u w = (focus_then u ^^ n) (w\<lparr>promises := (promises w)[pr := Resolved u]\<rparr>)"
    for u
    using assms by (simp add: resolve_def)
  have l: "pr < length (promises w)"
    using assms by (simp add: promise_at_Some)
  show "promise_at (resolve pr v w) pr = Some (Resolved v)"
    using l by (simp add: r promise_at_Some focus_thens_frame)
  show "objects (resolve pr v w) = objects w"
    by (simp add: r focus_thens_frame)
  show "log (resolve pr (Some h) w) = log w @ replicate n (Call_performInspection h)"
    by (simp add: r focus_thens_log)
qed

lemma reject_pending:
  assumes "promise_at w pr = Some (Pending n)"
  shows "promise_at (reject pr e w) pr = Some (Rejected e)"
    and "objects (reject pr e w) = objects w"
    and "log (reject pr e w) = log w"
    and "manager (reject pr e w) = manager w"
proof -
  have r: "reject pr e w = w\<lparr>promises := (promises w)[pr := Rejected e]\<rparr>"
    using assms by (simp add: reject_def)
  have l: "pr < length (promises w)"
    using assms by (simp add: promise_at_Some)
  show "promise_at (reject pr e w) pr = Some (Rejected e)"
    using l by (simp add: r promise_at_Some)
  show "objects (reject pr e w) = objects w" "log (reject pr e w) = log w"
    "manager (reject pr e w) = manager w"
    by (simp_all add: r)
qed

lemma then_focus_pending:
  assumes "promise_at w pr = Some (Pending n)"
  shows "promise_at (then_focus pr w) pr = Some (Pending (Suc n))"
    and "manager (then_focus pr w) = manager w"
    and "log (then_focus pr w) = log w"
proof -
  have r: "then_focus pr w = w\<lparr>promises := (promises w)[pr := Pending (Suc n)]\<rparr>"
    using assms by (simp add: then_focus_def)
  have l: "pr < length (promises w)"
    using assms by (simp add: promise_at_Some)
  show "promise_at (then_focus pr w) pr = Some (Pending (Suc n))"
    using l by (simp add: r promise_at_Some)
  show "manager (then_focus pr w) = manager w" "log (then_focus pr w) = log w"
    by (simp_all add: r)
qed

lemma resolve_pending_source:
  assumes "promise_at w pr = Some (Pending (Suc n))"
  shows "m_source (manager (resolve pr (Some h) w)) = Some h"
  using assms by (simp add: resolve_def focus_then_Some set_m_source_def)

text \<open>The definitions a run of the wiring on given events unfolds.\<close>

lemmas wiring_eval =
  newWiring_def newVariableInspectorManager_def consoles_widgetAdded_def
  notebooks_widgetAdded_def connectorReady_def consoles_connectorReady_def
  notebooks_connectorReady_def scripts_then_def handlerReady_def resolve_def reject_def
  then_focus_def focus_then_def promise_at_def hasHandler_def getHandler_def addHandler_def
  set_m_source_def consoles_currentChanged_def notebooks_currentChanged_def orElse_def
  panelDisposed_def dispose_handler_def handlerDisposed_def Let_def

subsection \<open>A session without a language script\<close>

text \<open>
  The consoles plugin, when the lookup of the language script is rejected for a console
  whose handler promise is pending: the message is written to the console, a Dummy Handler
  is constructed and the promise is resolved with it.
\<close>

lemma consoles_lookup_failure:
  assumes "promise_at w pr = Some (Pending n)"
    and "map_of (connector_ready_then w) pr = Some (Console, c)"
  shows "objects (connectorReady pr (RejectedWith msg) w)
           = objects w @ [DummyHandler (KernelConnector (session_path c))]"
    and "promise_at (connectorReady pr (RejectedWith msg) w) pr
           = Some (Resolved (Some (length (objects w))))"
    and "log (connectorReady pr (RejectedWith msg) w)
           = log w @ Console_log msg # replicate n (Call_performInspection (length (objects w)))"
proof -
  let ?w1 = "w\<lparr>connector_ready_then := AList.delete pr (connector_ready_then w)\<rparr>"
  let ?w3 = "?w1\<lparr>log := log ?w1 @ [Console_log msg],
      objects := objects ?w1 @ [DummyHandler (KernelConnector (session_path c))],
      panel_disposed_slots :=
        panel_disposed_slots ?w1 @ [(Console, wid c, length (objects ?w1))]\<rparr>"
  have p3: "promise_at ?w3 pr = Some (Pending n)"
    using assms(1) by (simp add: promise_at_Some)
  have c: "connectorReady pr (RejectedWith msg) w = resolve pr (Some (length (objects w))) ?w3"
    using assms(2) by (simp add: connectorReady_def consoles_connectorReady_def Let_def)
  show "objects (connectorReady pr (RejectedWith msg) w)
           = objects w @ [DummyHandler (KernelConnector (session_path c))]"
    using resolve_pending(2) [OF p3] by (simp add: c)
  show "promise_at (connectorReady pr (RejectedWith msg) w) pr
           = Some (Resolved (Some (length (objects w))))"
    using resolve_pending(1) [OF p3] by (simp add: c)
  show "log (connectorReady pr (RejectedWith msg) w)
           = log w @ Console_log msg # replicate n (Call_performInspection (length (objects w)))"
    using resolve_pending(3) [OF p3] by (simp add: c)
qed

text \<open>
  Claim C1: a session whose lookup of the language script fails has its handler entry
  resolved with a Dummy Handler, for consoles and for notebooks. The notebooks plugin
  does not do so. For a notebook whose kernel has no script, the notebook's entry of
  \<open>handlers\<close> is a promise rejected with the message of the lookup, no Dummy Handler is
  constructed and nothing is logged. When a console with a script has been focused before
  and the focus then moves to that notebook, the only handler is the console's, the
  manager's source stays on it and the only call made is the inspection of the console.
\<close>

theorem notebook_lookup_failure_rejects:
  "handlers (run [NotebookAdded \<lparr>wid = ''nb-1'', session_path = ''a.ipynb''\<rparr>,
                  ConnectorReady 0 (RejectedWith ''Language cobol not supported yet!'')]
               newWiring) (Notebook, ''nb-1'') = Some 0
   \<and> promise_at (run [NotebookAdded \<lparr>wid = ''nb-1'', session_path = ''a.ipynb''\<rparr>,
                      ConnectorReady 0 (RejectedWith ''Language cobol not supported yet!'')]
                   newWiring) 0
       = Some (Rejected (Message ''Language cobol not supported yet!''))
   \<and> objects (run [NotebookAdded \<lparr>wid = ''nb-1'', session_path = ''a.ipynb''\<rparr>,
                   ConnectorReady 0 (RejectedWith ''Language cobol not supported yet!'')]
                newWiring) = []
   \<and> log (run [NotebookAdded \<lparr>wid = ''nb-1'', session_path = ''a.ipynb''\<rparr>,
               ConnectorReady 0 (RejectedWith ''Language cobol not supported yet!'')]
            newWiring) = []
   \<and> objects (run [ConsoleAdded \<lparr>wid = ''console-1'', session_path = ''c1''\<rparr>,
                   ConnectorReady 0 (Fulfilled \<lparr>initScript = ''i'', queryCommand = ''q'',
                                                 matrixQueryCommand = ''m''\<rparr>),
                   HandlerReady 0,
                   CurrentChanged (Some \<lparr>wid = ''console-1'', session_path = ''c1''\<rparr>)
                     True False,
                   NotebookAdded \<lparr>wid = ''nb-1'', session_path = ''a.ipynb''\<rparr>,
                   ConnectorReady 1 (RejectedWith ''Language cobol not supported yet!''),
                   CurrentChanged (Some \<lparr>wid = ''nb-1'', session_path = ''a.ipynb''\<rparr>)
                     False True] newWiring)
       = [VariableInspectionHandler ''q'' ''m'' (KernelConnector ''c1'') ''i'' ''c1'']
   \<and> m_source (manager
         (run [ConsoleAdded \<lparr>wid = ''console-1'', session_path = ''c1''\<rparr>,
               ConnectorReady 0 (Fulfilled \<lparr>initScript = ''i'', queryCommand = ''q'',
                                             matrixQueryCommand = ''m''\<rparr>),
               HandlerReady 0,
               CurrentChanged (Some \<lparr>wid = ''console-1'', session_path = ''c1''\<rparr>)
                 True False,
               NotebookAdded \<lparr>wid = ''nb-1'', session_path = ''a.ipynb''\<rparr>,
               ConnectorReady 1 (RejectedWith ''Language cobol not supported yet!''),
               CurrentChanged (Some \<lparr>wid = ''nb-1'', session_path = ''a.ipynb''\<rparr>)
                 False True] newWiring)) = Some 0
   \<and> log (run [ConsoleAdded \<lparr>wid = ''console-1'', session_path = ''c1''\<rparr>,
               ConnectorReady 0 (Fulfilled \<lparr>initScript = ''i'', queryCommand = ''q'',
                                             matrixQueryCommand = ''m''\<rparr>),
               HandlerReady 0,
               CurrentChanged (Some \<lparr>wid = ''console-1'', session_path = ''c1''\<rparr>)
                 True False,
               NotebookAdded \<lparr>wid = ''nb-1'', session_path = ''a.ipynb''\<rparr>,
               ConnectorReady 1 (RejectedWith ''Language cobol not supported yet!''),
               CurrentChanged (Some \<lparr>wid = ''nb-1'', session_path = ''a.ipynb''\<rparr>)
                 False True] newWiring) = [Call_performInspection 0]"
  by (simp add: wiring_eval)

subsection \<open>Focus changes\<close>

text \<open>
  Claim C3: on a focus change to a tracked console or notebook whose handler promise is
  resolved with a handler \<open>h\<close> that is not null, the slot sets the manager's source to
  \<open>h\<close> and then calls \<open>performInspection\<close> of the manager's source, which is \<open>h\<close>.
  When the promise is still pending the slot registers the continuation, and the
  resolution of the promise with \<open>h\<close> runs it: the source is \<open>h\<close> and
  \<open>performInspection\<close> of \<open>h\<close> has been called once for each registered continuation.
\<close>

theorem focus_change_activates:
  "(handlers w (Console, wid widget) = Some pr \<and> promise_at w pr = Some (Resolved (Some h)) \<longrightarrow>
      consoles_currentChanged True (Some widget) w =
        Inr (w\<lparr>manager := set_m_source (Some h) (manager w),
               log := log w @ [Call_performInspection h]\<rparr>))
   \<and> (handlers w (Notebook, wid widget) = Some pr \<and> promise_at w pr = Some (Resolved (Some h)) \<longrightarrow>
      notebooks_currentChanged True (Some widget) w =
        Inr (w\<lparr>manager := set_m_source (Some h) (manager w),
               log := log w @ [Call_performInspection h]\<rparr>))
   \<and> m_source (set_m_source (Some h) (manager w)) = Some h
   \<and> (handlers w (Console, wid widget) = Some pr \<and> promise_at w pr = Some (Pending n) \<longrightarrow>
      consoles_currentChanged True (Some widget) w = Inr (then_focus pr w))
   \<and> (handlers w (Notebook, wid widget) = Some pr \<and> promise_at w pr = Some (Pending n) \<longrightarrow>
      notebooks_currentChanged True (Some widget) w = Inr (then_focus pr w))
   \<and> (promise_at w pr = Some (Pending n) \<longrightarrow>
      promise_at (then_focus pr w) pr = Some (Pending (Suc n)))
   \<and> (promise_at w pr = Some (Pending (Suc n)) \<longrightarrow>
      m_source (manager (resolve pr (Some h) w)) = Some h
      \<and> log (resolve pr (Some h) w) = log w @ replicate (Suc n) (Call_performInspection h))"
  using then_focus_pending(1) [of w pr n] resolve_pending_source [of w pr n h]
    resolve_pending(3) [of w pr "Suc n" h]
  by (simp add: consoles_currentChanged_def notebooks_currentChanged_def then_focus_def
      focus_then_Some set_m_source_def)

theorem focus_change_activates_witness:
  "map_sum id (\<lambda>w. (m_source (manager w), log w))
     (notebooks_currentChanged True (Some \<lparr>wid = ''nb-1'', session_path = ''a.ipynb''\<rparr>)
        (run [NotebookAdded \<lparr>wid = ''nb-1'', session_path = ''a.ipynb''\<rparr>,
              ConnectorReady 0 (Fulfilled \<lparr>initScript = ''i'', queryCommand = ''q'',
                                            matrixQueryCommand = ''m''\<rparr>),
              HandlerReady 0] newWiring))
   = Inr (Some 0, [Call_performInspection 0])
   \<and> map_sum id (\<lambda>w. (m_source (manager w), log w))
     (consoles_currentChanged True (Some \<lparr>wid = ''console-1'', session_path = ''c1''\<rparr>)
        (run [ConsoleAdded \<lparr>wid = ''console-1'', session_path = ''c1''\<rparr>,
              ConnectorReady 0 (Fulfilled \<lparr>initScript = ''i'', queryCommand = ''q'',
                                            matrixQueryCommand = ''m''\<rparr>),
              HandlerReady 0] newWiring))
   = Inr (Some 0, [Call_performInspection 0])
   \<and> map_sum id (\<lambda>w. (m_source (manager (resolve 0 (Some 0) w)), log (resolve 0 (Some 0) w)))
     (consoles_currentChanged True (Some \<lparr>wid = ''console-1'', session_path = ''c1''\<rparr>)
        (consoles_widgetAdded \<lparr>wid = ''console-1'', session_path = ''c1''\<rparr> newWiring))
   = Inr (Some 0, [Call_performInspection 0])
   \<and> map_sum id (\<lambda>w. (m_source (manager (resolve 0 (Some 0) w)), log (resolve 0 (Some 0) w)))
     (notebooks_currentChanged True (Some \<lparr>wid = ''nb-1'', session_path = ''a.ipynb''\<rparr>)
        (notebooks_widgetAdded \<lparr>wid = ''nb-1'', session_path = ''a.ipynb''\<rparr> newWiring))
   = Inr (Some 0, [Call_performInspection 0])"
proof -
  let ?n = "\<lparr>wid = ''nb-1'', session_path = ''a.ipynb''\<rparr>"
  let ?c = "\<lparr>wid = ''console-1'', session_path = ''c1''\<rparr>"
  let ?lm = "\<lparr>initScript = ''i'', queryCommand = ''q'', matrixQueryCommand = ''m''\<rparr>"
  let ?wn = "run [NotebookAdded ?n, ConnectorReady 0 (Fulfilled ?lm), HandlerReady 0] newWiring"
  let ?wc = "run [ConsoleAdded ?c, ConnectorReady 0 (Fulfilled ?lm), HandlerReady 0] newWiring"
  let ?vn = "notebooks_widgetAdded ?n newWiring"
  let ?vc = "consoles_widgetAdded ?c newWiring"
  have an: "handlers ?wn (Notebook, wid ?n) = Some 0"
    and bn: "promise_at ?wn 0 = Some (Resolved (Some 0))"
    and cn: "log ?wn = []"
    by (simp_all add: wiring_eval)
  have ac: "handlers ?wc (Console, wid ?c) = Some 0"
    and bc: "promise_at ?wc 0 = Some (Resolved (Some 0))"
    and cc: "log ?wc = []"
    by (simp_all add: wiring_eval)
  have dn: "handlers ?vn (Notebook, wid ?n) = Some 0"
    and en: "promise_at ?vn 0 = Some (Pending 0)"
    and fn: "log ?vn = []"
    by (simp_all add: wiring_eval)
  have dc: "handlers ?vc (Console, wid ?c) = Some 0"
    and ec: "promise_at ?vc 0 = Some (Pending 0)"
    and fc: "log ?vc = []"
    by (simp_all add: wiring_eval)
  from focus_change_activates [of ?wn ?n 0 0 0] an bn cn
  have 1: "map_sum id (\<lambda>w. (m_source (manager w), log w))
     (notebooks_currentChanged True (Some ?n) ?wn) = Inr (Some 0, [Call_performInspection 0])"
    by (simp add: set_m_source_def)
  from focus_change_activates [of ?wc ?c 0 0 0] ac bc cc
  have 2: "map_sum id (\<lambda>w. (m_source (manager w), log w))
     (consoles_currentChanged True (Some ?c) ?wc) = Inr (Some 0, [Call_performInspection 0])"
    by (simp add: set_m_source_def)
  from focus_change_activates [of ?vc ?c 0 0 0] dc ec
  have 3: "consoles_currentChanged True (Some ?c) ?vc = Inr (then_focus 0 ?vc)"
    and 4: "promise_at (then_focus 0 ?vc) 0 = Some (Pending (Suc 0))"
    by simp_all
  from focus_change_activates [of ?vn ?n 0 0 0] dn en
  have 5: "notebooks_currentChanged True (Some ?n) ?vn = Inr (then_focus 0 ?vn)"
    and 6: "promise_at (then_focus 0 ?vn) 0 = Some (Pending (Suc 0))"
    by simp_all
  have 7: "log (then_focus 0 ?vc) = []"
    using then_focus_pending(3) [OF ec] fc by simp
  have 8: "log (then_focus 0 ?vn) = []"
    using then_focus_pending(3) [OF en] fn by simp
  from focus_change_activates [of "then_focus 0 ?vc" ?c 0 0 0] 4 7
  have 9: "m_source (manager (resolve 0 (Some 0) (then_focus 0 ?vc))) = Some 0
     \<and> log (resolve 0 (Some 0) (then_focus 0 ?vc)) = [Call_performInspection 0]"
    by simp
  from focus_change_activates [of "then_focus 0 ?vn" ?n 0 0 0] 6 8
  have 10: "m_source (manager (resolve 0 (Some 0) (then_focus 0 ?vn))) = Some 0
     \<and> log (resolve 0 (Some 0) (then_focus 0 ?vn)) = [Call_performInspection 0]"
    by simp
  from 1 2 3 5 9 10 show ?thesis by simp
qed

subsection \<open>One handler per identifier\<close>

lemma resolve_m_handlers: "m_handlers (manager (resolve pr v w)) = m_handlers (manager w)"
  by (simp add: resolve_def focus_thens_frame split: option.splits promise.splits)

lemma reject_manager: "manager (reject pr e w) = manager w"
  by (simp add: reject_def split: option.splits promise.splits)

lemma then_focus_m_handlers: "m_handlers (manager (then_focus pr w)) = m_handlers (manager w)"
  by (simp add: then_focus_def focus_then_frame split: option.splits promise.splits)

lemma keys_distinct_scripts_then:
  "keys_distinct w \<Longrightarrow> keys_distinct (scripts_then k panel pr result w)"
  by (simp add: keys_distinct_def scripts_then_def addHandler_def Let_def distinct_update)

lemma keys_distinct_connectorReady:
  "keys_distinct w \<Longrightarrow> keys_distinct (connectorReady pr scripts w)"
proof -
  assume d: "keys_distinct w"
  have 1: "keys_distinct (consoles_connectorReady c pr scripts v)" if "keys_distinct v" for c v
    using that keys_distinct_scripts_then [of v Console c pr]
    by (cases scripts)
       (simp_all add: consoles_connectorReady_def Let_def, simp add: keys_distinct_def resolve_m_handlers)
  have 2: "keys_distinct (notebooks_connectorReady c pr scripts v)" if "keys_distinct v" for c v
    using that keys_distinct_scripts_then [of v Notebook c pr]
    by (cases scripts)
       (simp_all add: notebooks_connectorReady_def, simp add: keys_distinct_def reject_manager)
  have 3: "keys_distinct (w\<lparr>connector_ready_then := x\<rparr>)" for x
    using d by (simp add: keys_distinct_def)
  show ?thesis
    using d 1 [OF 3] 2 [OF 3]
    by (simp add: connectorReady_def Let_def split: option.splits wkind.splits)
qed

lemma keys_distinct_run_disposed_slots:
  "keys_distinct w \<Longrightarrow> keys_distinct (run_disposed_slots k i slots w)"
proof (induction slots arbitrary: w)
  case Nil
  then show ?case by simp
next
  case (Cons s slots)
  obtain k' i' h where s: "s = (k', i', h)" by (cases s)
  have "keys_distinct (dispose_handler h (w\<lparr>handlers := (handlers w)((k, i) := None)\<rparr>))"
    using Cons.prems
    by (simp add: keys_distinct_def dispose_handler_def handlerDisposed_def distinct_map_filter)
  with Cons show ?case by (simp add: s)
qed

lemma keys_distinct_step: "keys_distinct w \<Longrightarrow> keys_distinct (step e w)"
proof (cases e)
  case (ConsoleAdded c)
  assume "keys_distinct w"
  then show ?thesis
    by (simp add: ConsoleAdded keys_distinct_def consoles_widgetAdded_def Let_def
        split: option.splits)
next
  case (NotebookAdded n)
  assume "keys_distinct w"
  then show ?thesis
    by (simp add: NotebookAdded keys_distinct_def notebooks_widgetAdded_def Let_def)
next
  case (ConnectorReady pr scripts)
  assume "keys_distinct w"
  then show ?thesis
    by (simp add: ConnectorReady keys_distinct_connectorReady)
next
  case (HandlerReady h)
  assume "keys_distinct w"
  then show ?thesis
    by (simp add: HandlerReady handlerReady_def keys_distinct_def resolve_m_handlers
        split: option.splits)
next
  case (CurrentChanged nv a b)
  assume "keys_distinct w"
  then show ?thesis
    by (simp add: CurrentChanged keys_distinct_def consoles_currentChanged_def
        notebooks_currentChanged_def orElse_def Let_def then_focus_m_handlers
        split: option.splits)
next
  case (PanelDisposed k i)
  assume d: "keys_distinct w"
  have "keys_distinct (w\<lparr>panel_disposed_slots := x\<rparr>)" for x
    using d by (simp add: keys_distinct_def)
  then show ?thesis
    by (simp add: PanelDisposed panelDisposed_def keys_distinct_run_disposed_slots)
qed

lemma keys_distinct_run: "keys_distinct w \<Longrightarrow> keys_distinct (run es w)"
  by (induction es arbitrary: w) (simp_all add: keys_distinct_step)

lemma keys_distinct_newWiring: "keys_distinct newWiring"
  by (simp add: keys_distinct_def newWiring_def newVariableInspectorManager_def)

lemma count_key_distinct:
  "distinct (map fst al) \<Longrightarrow>
   length (filter (\<lambda>e. fst e = k) al) = (if k \<in> fst ` set al then 1 else 0)"
  by (induction al) (auto simp add: image_iff)

lemma addHandler_single:
  assumes "distinct (map fst (m_handlers m))"
  shows "distinct (map fst (m_handlers (addHandler sid h m)))"
    and "length (filter (\<lambda>e. fst e = sid) (m_handlers (addHandler sid h m))) = 1"
proof -
  show d: "distinct (map fst (m_handlers (addHandler sid h m)))"
    using assms by (simp add: addHandler_def distinct_update)
  have "sid \<in> fst ` set (m_handlers (addHandler sid h m))"
    by (simp add: addHandler_def dom_update)
  with count_key_distinct [OF d, of sid]
  show "length (filter (\<lambda>e. fst e = sid) (m_handlers (addHandler sid h m))) = 1"
    by simp
qed

lemma consoles_widgetAdded_reuse:
  assumes "hasHandler (session_path c) (manager w)"
  shows "objects (consoles_widgetAdded c w) = objects w"
    and "connector_ready_then (consoles_widgetAdded c w) = connector_ready_then w"
    and "manager (consoles_widgetAdded c w) = manager w"
    and "handlers (consoles_widgetAdded c w) (Console, wid c) = Some (length (promises w))"
    and "promise_at (consoles_widgetAdded c w) (length (promises w))
           = Some (Resolved (getHandler (session_path c) (manager w)))"
    and "getHandler (session_path c) (manager w) \<noteq> None"
  using assms
  by (auto simp add: consoles_widgetAdded_def hasHandler_def getHandler_def Let_def
      promise_at_def)

text \<open>
  After any sequence of events the identifiers registered in the manager are pairwise
  different, and \<open>addHandler\<close> replaces the entry of an identifier that has one.
\<close>

lemma manager_keys_distinct:
  "distinct (map fst (m_handlers (manager (run es newWiring))))"
  using keys_distinct_run [OF keys_distinct_newWiring, of es]
  by (simp add: keys_distinct_def)

lemma addHandler_replaces:
  "map_of (m_handlers (addHandler sid h m)) = (map_of (m_handlers m))(sid \<mapsto> h)"
  by (simp add: addHandler_def update_conv')

text \<open>
  Claim C2: at most one handler exists for a session identifier, and the wiring that
  creates handlers reuses the handler registered for a session path instead of
  constructing a second one. The consoles plugin does so (\<open>consoles_widgetAdded_reuse\<close>);
  the notebooks plugin does not. With two notebook panels on the same session path, a
  handler is registered for the path when the second panel is added, yet a second handler
  is constructed for the path and takes the place of the first in the manager, so that
  two handlers exist for one session identifier.
\<close>

theorem notebook_second_handler_constructed:
  "hasHandler ''a.ipynb''
     (manager (run [NotebookAdded \<lparr>wid = ''nb-1'', session_path = ''a.ipynb''\<rparr>,
                    ConnectorReady 0 (Fulfilled \<lparr>initScript = ''i'', queryCommand = ''q'',
                                                  matrixQueryCommand = ''m''\<rparr>)] newWiring))
   \<and> objects (run [NotebookAdded \<lparr>wid = ''nb-1'', session_path = ''a.ipynb''\<rparr>,
                   ConnectorReady 0 (Fulfilled \<lparr>initScript = ''i'', queryCommand = ''q'',
                                                 matrixQueryCommand = ''m''\<rparr>),
                   NotebookAdded \<lparr>wid = ''nb-2'', session_path = ''a.ipynb''\<rparr>,
                   ConnectorReady 1 (Fulfilled \<lparr>initScript = ''i'', queryCommand = ''q'',
                                                 matrixQueryCommand = ''m''\<rparr>)] newWiring)
     = [VariableInspectionHandler ''q'' ''m'' (KernelConnector ''a.ipynb'') ''i'' ''a.ipynb'',
        VariableInspectionHandler ''q'' ''m'' (KernelConnector ''a.ipynb'') ''i'' ''a.ipynb'']
   \<and> m_handlers (manager (run [NotebookAdded \<lparr>wid = ''nb-1'', session_path = ''a.ipynb''\<rparr>,
                   ConnectorReady 0 (Fulfilled \<lparr>initScript = ''i'', queryCommand = ''q'',
                                                 matrixQueryCommand = ''m''\<rparr>),
                   NotebookAdded \<lparr>wid = ''nb-2'', session_path = ''a.ipynb''\<rparr>,
                   ConnectorReady 1 (Fulfilled \<lparr>initScript = ''i'', queryCommand = ''q'',
                                                 matrixQueryCommand = ''m''\<rparr>)] newWiring))
     = [(''a.ipynb'', 1)]
   \<and> objects (consoles_widgetAdded \<lparr>wid = ''console-1'', session_path = ''a.ipynb''\<rparr>
       (run [NotebookAdded \<lparr>wid = ''nb-1'', session_path = ''a.ipynb''\<rparr>,
             ConnectorReady 0 (Fulfilled \<lparr>initScript = ''i'', queryCommand = ''q'',
                                           matrixQueryCommand = ''m''\<rparr>)] newWiring))
     = [VariableInspectionHandler ''q'' ''m'' (KernelConnector ''a.ipynb'') ''i'' ''a.ipynb'']"
  by (simp add: wiring_eval)

end
